theory Spec2Isabelle
  imports Complex_Main
begin

section \<open>Release-point calculator: data model\<close>

text \<open>
  The calculator works on Python floats. They are modelled as exact reals: rounding,
  infinities and NaN are outside the model, and every statement below is a statement
  about the arithmetic the code writes down, read over the reals. What the model does keep
  are the exceptions the \<open>math\<close> functions and the division raise on a bad argument, and
  the handlers that catch them. In one place the float arithmetic decides which branch
  runs, the discarded square root of \<open>calculate_wind_effect\<close>; there its outcome is a
  parameter of the model.
\<close>

datatype ErrorCode =
    SUCCESS
  | INVALID_COORDINATES
  | INVALID_SPEED
  | TARGET_TOO_FAR
  | CALCULATION_ERROR
  | NUMERICAL_INSTABILITY

text \<open>The value of each member, as the enumeration declares it.\<close>

fun ErrorCode_value :: "ErrorCode \<Rightarrow> nat" where
  "ErrorCode_value SUCCESS = 0"
| "ErrorCode_value INVALID_COORDINATES = 1"
| "ErrorCode_value INVALID_SPEED = 2"
| "ErrorCode_value TARGET_TOO_FAR = 3"
| "ErrorCode_value CALCULATION_ERROR = 4"
| "ErrorCode_value NUMERICAL_INSTABILITY = 5"

datatype py_exn = ValueError | ZeroDivisionError | OverflowError

record Position =
  latitude :: real
  longitude :: real
  altitude :: real

record SpeedData =
  airspeed :: real
  groundspeed :: real

text \<open>
  The dataclass constructors with their \<open>__post_init__\<close> checks. A failed check raises
  \<open>ValueError\<close>; the plausibility warning of \<open>SpeedData\<close> only logs.
\<close>

definition new_Position :: "real \<Rightarrow> real \<Rightarrow> real \<Rightarrow> py_exn + Position" where
  "new_Position lat lon alt =
     (if \<not> (- 90 \<le> lat \<and> lat \<le> 90) then Inl ValueError
      else if \<not> (- 180 \<le> lon \<and> lon \<le> 180) then Inl ValueError
      else if alt < 0 then Inl ValueError
      else Inr \<lparr>latitude = lat, longitude = lon, altitude = alt\<rparr>)"

definition new_SpeedData :: "real \<Rightarrow> real \<Rightarrow> py_exn + SpeedData" where
  "new_SpeedData a g =
     (if a \<le> 0 then Inl ValueError
      else if g \<le> 0 then Inl ValueError
      else Inr \<lparr>airspeed = a, groundspeed = g\<rparr>)"

text \<open>A value is constructed when the constructor accepts its fields.\<close>

definition constructed_Position :: "Position \<Rightarrow> bool" where
  "constructed_Position p =
     (new_Position (latitude p) (longitude p) (altitude p) = Inr p)"

definition constructed_SpeedData :: "SpeedData \<Rightarrow> bool" where
  "constructed_SpeedData s = (new_SpeedData (airspeed s) (groundspeed s) = Inr s)"

section \<open>The \<open>math\<close> module\<close>

definition radians :: "real \<Rightarrow> real" where
  "radians x = x * (pi / 180)"

definition degrees :: "real \<Rightarrow> real" where
  "degrees x = x * (180 / pi)"

definition py_sqrt :: "real \<Rightarrow> py_exn + real" where
  "py_sqrt x = (if x < 0 then Inl ValueError else Inr (sqrt x))"

definition py_asin :: "real \<Rightarrow> py_exn + real" where
  "py_asin x = (if x < - 1 \<or> 1 < x then Inl ValueError else Inr (arcsin x))"

definition py_div :: "real \<Rightarrow> real \<Rightarrow> py_exn + real" where
  "py_div x y = (if y = 0 then Inl ZeroDivisionError else Inr (x / y))"

text \<open>\<open>math.atan2(y, x)\<close>, the angle of the point \<open>(x, y)\<close> in \<open>[-pi, pi]\<close>.\<close>

definition atan2 :: "real \<Rightarrow> real \<Rightarrow> real" where
  "atan2 y x =
     (if 0 < x then arctan (y / x)
      else if x < 0 then (if 0 \<le> y then arctan (y / x) + pi else arctan (y / x) - pi)
      else if 0 < y then pi / 2
      else if y < 0 then - (pi / 2)
      else 0)"

section \<open>\<open>BombReleaseCalculator\<close>\<close>

definition EARTH_RADIUS :: real where
  "EARTH_RADIUS = 6371000"

definition GRAVITY :: real where
  "GRAVITY = 981 / 100"

definition MAX_REASONABLE_DISTANCE :: real where
  "MAX_REASONABLE_DISTANCE = 50000"

definition MIN_RELEASE_HEIGHT :: real where
  "MIN_RELEASE_HEIGHT = 50"

subsection \<open>\<open>calculate_distance_and_bearing\<close>\<close>

text \<open>The haversine term \<open>a\<close> as first computed, and the stability check that follows it.\<close>

definition haversine_a :: "Position \<Rightarrow> Position \<Rightarrow> real" where
  "haversine_a pos1 pos2 =
     (let lat1_rad = radians (latitude pos1);
          lon1_rad = radians (longitude pos1);
          lat2_rad = radians (latitude pos2);
          lon2_rad = radians (longitude pos2);
          dlat = lat2_rad - lat1_rad;
          dlon = lon2_rad - lon1_rad
      in (sin (dlat / 2))\<^sup>2 + cos lat1_rad * cos lat2_rad * (sin (dlon / 2))\<^sup>2)"

definition stability_check :: "real \<Rightarrow> real" where
  "stability_check a = (if a > 1 then 1 else if a < 0 then 0 else a)"

definition bearing_of :: "Position \<Rightarrow> Position \<Rightarrow> real" where
  "bearing_of pos1 pos2 =
     (let lat1_rad = radians (latitude pos1);
          lon1_rad = radians (longitude pos1);
          lat2_rad = radians (latitude pos2);
          lon2_rad = radians (longitude pos2);
          dlon = lon2_rad - lon1_rad;
          y = sin dlon * cos lat2_rad;
          x = cos lat1_rad * sin lat2_rad - sin lat1_rad * cos lat2_rad * cos dlon
      in atan2 y x)"

text \<open>
  The body runs under a handler that turns every exception into \<open>ValueError\<close>.
\<close>

definition calculate_distance_and_bearing :: "Position \<Rightarrow> Position \<Rightarrow> py_exn + (real \<times> real)" where
  "calculate_distance_and_bearing pos1 pos2 =
     (let a = stability_check (haversine_a pos1 pos2) in
      case py_sqrt a of
        Inl e \<Rightarrow> Inl ValueError
      | Inr r \<Rightarrow>
          (case py_asin r of
             Inl e \<Rightarrow> Inl ValueError
           | Inr s \<Rightarrow>
               (let c = 2 * s;
                    distance = EARTH_RADIUS * c;
                    bearing = bearing_of pos1 pos2
                in Inr (distance, bearing))))"

subsection \<open>\<open>calculate_wind_effect\<close>\<close>

text \<open>
  The body starts with
  \<^verbatim>\<open>wind_speed = math.sqrt(airspeed**2 + groundspeed**2 - 2 * airspeed * groundspeed * math.cos(0))\<close>
  and overwrites \<open>wind_speed\<close> in the next statement, but the line is evaluated and
  can raise. Over the reals its argument is \<open>(airspeed - groundspeed)\<^sup>2\<close> and nothing
  raises. In binary64 \<open>**\<close> raises \<open>OverflowError\<close> when a square leaves the float
  range, and rounding can leave the argument just below zero, on which \<open>math.sqrt\<close>
  raises \<open>ValueError\<close>. The handler of the function then returns the default
  \<open>(0.0, 0.0)\<close>. On which speeds this happens is a matter of float arithmetic, which the
  model does not have; it is the parameter \<open>wind_sqrt\<close>: \<open>wind_sqrt a g\<close> is the
  exception that line raises on these speeds, or \<open>None\<close> when it completes.
\<close>

definition calculate_wind_effect ::
    "(real \<Rightarrow> real \<Rightarrow> py_exn option) \<Rightarrow> real \<Rightarrow> real \<Rightarrow> real \<Rightarrow> real \<times> real" where
  "calculate_wind_effect wind_sqrt a g bearing =
     (case wind_sqrt a g of
        Some e \<Rightarrow> (0, 0)
      | None \<Rightarrow>
          (let wind_speed = \<bar>a - g\<bar>;
               wind_angle = (if a > g then pi else 0)
           in (wind_speed, wind_angle)))"

text \<open>
  One such parameter, for trying the functions out: the line raises \<open>OverflowError\<close>
  when a square is \<open>2 ^ 1024\<close> or more, which is beyond every float, and completes on
  all other speeds. It agrees with binary64 on speeds where a square overflows and on
  speeds where every operation of the line is exact; where rounding decides, it does not
  speak for the code.
\<close>

definition overflow_only :: "real \<Rightarrow> real \<Rightarrow> py_exn option" where
  "overflow_only a g =
     (if a\<^sup>2 \<ge> 2 ^ 1024 \<or> g\<^sup>2 \<ge> 2 ^ 1024 then Some OverflowError else None)"

subsection \<open>\<open>calculate_ballistic_trajectory\<close>\<close>

definition effective_horizontal_velocity :: "real \<Rightarrow> real \<Rightarrow> real" where
  "effective_horizontal_velocity initial_velocity wind_speed = initial_velocity + wind_speed"

text \<open>
  \<open>None\<close> is the source's \<open>None\<close> (no solution); an exception in the body is caught and
  gives \<open>None\<close> as well.
\<close>

definition calculate_ballistic_trajectory :: "real \<Rightarrow> real \<Rightarrow> real \<Rightarrow> real \<Rightarrow> real option" where
  "calculate_ballistic_trajectory initial_velocity height distance wind_speed =
     (if height \<le> 0 then None
      else if distance \<le> 0 then None
      else
        case py_sqrt (2 * height / GRAVITY) of
          Inl e \<Rightarrow> None
        | Inr vertical_time \<Rightarrow>
            (let v = effective_horizontal_velocity initial_velocity wind_speed in
             if \<bar>v\<bar> < 1 / 10 ^ 10 then None
             else
               case py_div distance \<bar>v\<bar> of
                 Inl e \<Rightarrow> None
               | Inr horizontal_time \<Rightarrow>
                   (let flight_time =
                          (if horizontal_time > vertical_time * (12 / 10) then vertical_time
                           else max horizontal_time (vertical_time * (8 / 10)))
                    in if flight_time \<le> 0 \<or> flight_time > 60 then None
                       else Some (flight_time * (11 / 10)))))"

subsection \<open>\<open>calculate_release_point\<close>\<close>

text \<open>
  The result dictionary has a fixed set of keys and is a record. The messages are
  formatted texts; the model keeps which text it is and the numbers put into it.
\<close>

datatype Message =
    NoMessage
  | AltitudeTooLow real real
  | TargetTooFar real real
  | NoValidTrajectory
  | ResultUnstable real
  | ReleaseMomentMissed
  | ExceptionText py_exn

record Result =
  success :: bool
  error_code :: ErrorCode
  message :: Message
  release_time :: "real option"
  release_distance :: "real option"
  flight_time :: "real option"
  wind_speed :: "real option"
  calculations :: "string \<rightharpoonup> real"

definition initial_result :: Result where
  "initial_result =
     \<lparr>success = False, error_code = SUCCESS, message = NoMessage,
      release_time = None, release_distance = None, flight_time = None,
      wind_speed = None, calculations = Map.empty\<rparr>"

definition calculate_release_point ::
    "(real \<Rightarrow> real \<Rightarrow> py_exn option) \<Rightarrow> Position \<Rightarrow> Position \<Rightarrow> SpeedData \<Rightarrow> Result" where
  "calculate_release_point wind_sqrt aircraft_pos target_pos speed_data =
     (let result = initial_result in
      if altitude aircraft_pos < MIN_RELEASE_HEIGHT then
        result\<lparr>error_code := INVALID_COORDINATES,
               message := AltitudeTooLow (altitude aircraft_pos) MIN_RELEASE_HEIGHT\<rparr>
      else
        case calculate_distance_and_bearing aircraft_pos target_pos of
          Inl e \<Rightarrow> result\<lparr>error_code := CALCULATION_ERROR, message := ExceptionText e\<rparr>
        | Inr (distance, bearing) \<Rightarrow>
            if distance > MAX_REASONABLE_DISTANCE then
              result\<lparr>error_code := TARGET_TOO_FAR,
                     message := TargetTooFar distance MAX_REASONABLE_DISTANCE\<rparr>
            else
              (case calculate_wind_effect wind_sqrt (airspeed speed_data) (groundspeed speed_data)
                      bearing of
                 (wind_speed_v, wind_angle) \<Rightarrow>
                   (case calculate_ballistic_trajectory (groundspeed speed_data)
                           (altitude aircraft_pos - altitude target_pos) distance wind_speed_v of
                      None \<Rightarrow> result\<lparr>error_code := CALCULATION_ERROR, message := NoValidTrajectory\<rparr>
                    | Some flight_time_v \<Rightarrow>
                        (let release_distance_v = groundspeed speed_data * flight_time_v in
                         if release_distance_v > distance * 2 then
                           result\<lparr>error_code := NUMERICAL_INSTABILITY,
                                  message := ResultUnstable release_distance_v\<rparr>
                         else
                           case py_div (distance - release_distance_v) (groundspeed speed_data) of
                             Inl e \<Rightarrow>
                               result\<lparr>error_code := CALCULATION_ERROR, message := ExceptionText e\<rparr>
                           | Inr release_time_v \<Rightarrow>
                               if release_time_v < 0 then
                                 result\<lparr>error_code := CALCULATION_ERROR,
                                        message := ReleaseMomentMissed\<rparr>
                               else
                                 result\<lparr>success := True,
                                        release_time := Some release_time_v,
                                        release_distance := Some release_distance_v,
                                        flight_time := Some flight_time_v,
                                        wind_speed := Some wind_speed_v,
                                        calculations :=
                                          [''target_distance'' \<mapsto> distance,
                                           ''target_bearing'' \<mapsto> degrees bearing,
                                           ''wind_angle'' \<mapsto> degrees wind_angle,
                                           ''aircraft_altitude'' \<mapsto> altitude aircraft_pos,
                                           ''target_altitude'' \<mapsto> altitude target_pos,
                                           ''altitude_difference'' \<mapsto>
                                              altitude aircraft_pos - altitude target_pos]\<rparr>))))"

section \<open>\<open>FlightDataCollector\<close>\<close>

record FlightData =
  position :: Position
  speed :: SpeedData
  timestamp :: real
  altitude_msl :: real
  altitude_agl :: real
  heading :: real

text \<open>
  The collector talks to the transport and reads the wall clock. Both are outside the
  program, so they are parameters: \<open>time\<close> reads the clock, and the two pulls take a
  timeout; each may change the outside world \<open>'w\<close>. Both pulls catch every exception of
  their own and answer \<open>None\<close>.
\<close>

record 'w collector =
  time :: "'w \<Rightarrow> real \<times> 'w"
  get_position_data :: "real \<Rightarrow> 'w \<Rightarrow> Position option \<times> 'w"
  get_speed_data :: "real \<Rightarrow> 'w \<Rightarrow> SpeedData option \<times> 'w"

text \<open>The pulls that one call attempted, in order, each with the timeout it was given.\<close>

datatype pull = PositionPull real | SpeedPull real

text \<open>
  \<open>get_complete_flight_data\<close> returns the flight data or \<open>None\<close>, here together with
  the pulls it made and the world it leaves behind.
\<close>

definition get_complete_flight_data ::
    "'w collector \<Rightarrow> real \<Rightarrow> 'w \<Rightarrow> FlightData option \<times> pull list \<times> 'w" where
  "get_complete_flight_data c timeout w0 =
     (case time c w0 of (start_time, w1) \<Rightarrow>
        let half_timeout = timeout / 2 in
        case get_position_data c half_timeout w1 of
          (None, w2) \<Rightarrow> (None, [PositionPull half_timeout], w2)
        | (Some pos, w2) \<Rightarrow>
            (case time c w2 of (now, w3) \<Rightarrow>
               let elapsed = now - start_time;
                   remaining_timeout = timeout - elapsed
               in if remaining_timeout \<le> 0 then (None, [PositionPull half_timeout], w3)
                  else
                    case get_speed_data c remaining_timeout w3 of
                      (None, w4) \<Rightarrow>
                        (None, [PositionPull half_timeout, SpeedPull remaining_timeout], w4)
                    | (Some spd, w4) \<Rightarrow>
                        (case time c w4 of (stamp, w5) \<Rightarrow>
                           (Some \<lparr>position = pos, speed = spd, timestamp = stamp,
                                  altitude_msl = 0, altitude_agl = 0, heading = 0\<rparr>,
                            [PositionPull half_timeout, SpeedPull remaining_timeout], w5))))"

text \<open>
  A transport for trying the collector out. Its world is the clock together with the log
  of the pulls the transport has served, each with the timeout it was called with.
  Reading the clock costs nothing, the position pull answers after \<open>k\<close> times its
  timeout and the speed pull after its whole timeout.
\<close>

definition logging_collector ::
    "real \<Rightarrow> Position \<Rightarrow> SpeedData \<Rightarrow> (real \<times> pull list) collector" where
  "logging_collector k pos spd =
     \<lparr>time = (\<lambda>(clock, served). (clock, (clock, served))),
      get_position_data =
        (\<lambda>t (clock, served). (Some pos, (clock + k * t, served @ [PositionPull t]))),
      get_speed_data =
        (\<lambda>t (clock, served). (Some spd, (clock + t, served @ [SpeedPull t])))\<rparr>"

section \<open>Facts about the \<open>math\<close> functions\<close>

lemma pi_ge_three: "3 \<le> pi"
proof -
  have "sin (pi / 6) \<le> pi / 6" by (rule sin_x_le_x) simp
  then show ?thesis by (simp add: sin_30)
qed

lemma sqrt_100: "sqrt 100 = 10"
  by (rule real_sqrt_unique) simp_all

lemma sqrt_2500: "sqrt 2500 = 50"
  by (rule real_sqrt_unique) simp_all

lemma radians_diff: "radians a - radians b = radians (a - b)"
  by (simp add: radians_def left_diff_distrib)

section \<open>Distance and bearing\<close>

lemma stability_check_range: "0 \<le> stability_check a \<and> stability_check a \<le> 1"
  by (simp add: stability_check_def)

lemma stability_check_id: "0 \<le> a \<Longrightarrow> a \<le> 1 \<Longrightarrow> stability_check a = a"
  by (simp add: stability_check_def)

text \<open>After the stability check neither the square root nor the arc sine can raise.\<close>

lemma distance_and_bearing_eq:
  "calculate_distance_and_bearing pos1 pos2 =
     Inr (EARTH_RADIUS * (2 * arcsin (sqrt (stability_check (haversine_a pos1 pos2)))),
          bearing_of pos1 pos2)"
proof -
  let ?a = "stability_check (haversine_a pos1 pos2)"
  have a: "0 \<le> ?a" "?a \<le> 1" using stability_check_range by auto
  have 1: "py_sqrt ?a = Inr (sqrt ?a)" using a by (simp add: py_sqrt_def)
  have "- 1 \<le> sqrt ?a" using real_sqrt_ge_zero[OF a(1)] by linarith
  then have 2: "py_asin (sqrt ?a) = Inr (arcsin (sqrt ?a))"
    using real_sqrt_le_1_iff[of ?a] a(2) by (simp add: py_asin_def not_less)
  show ?thesis by (simp add: calculate_distance_and_bearing_def Let_def 1 2)
qed



lemma haversine_a_same_longitude:
  assumes "longitude pos1 = longitude pos2"
  shows "haversine_a pos1 pos2 = (sin (radians (latitude pos2 - latitude pos1) / 2))\<^sup>2"
  using assms by (simp add: haversine_a_def Let_def radians_diff)

text \<open>Along a meridian the distance is the arc between the two latitudes.\<close>

lemma distance_same_longitude:
  assumes "longitude pos1 = longitude pos2" "latitude pos1 \<le> latitude pos2"
    "latitude pos2 - latitude pos1 \<le> 180"
  shows "calculate_distance_and_bearing pos1 pos2 =
     Inr (EARTH_RADIUS * radians (latitude pos2 - latitude pos1), bearing_of pos1 pos2)"
proof -
  let ?x = "radians (latitude pos2 - latitude pos1) / 2"
  have x0: "0 \<le> ?x" using assms(2) by (simp add: radians_def)
  have "radians (latitude pos2 - latitude pos1) \<le> radians 180"
    using assms(3) unfolding radians_def by (intro mult_right_mono) auto
  then have x1: "?x \<le> pi / 2" by (simp add: radians_def)
  have s0: "0 \<le> sin ?x" using x0 x1 by (intro sin_ge_zero) (auto intro: order_trans)
  have a: "haversine_a pos1 pos2 = (sin ?x)\<^sup>2" using assms(1) by (rule haversine_a_same_longitude)
  have "(sin ?x)\<^sup>2 \<le> 1" by (simp add: abs_square_le_1)
  then have "stability_check (haversine_a pos1 pos2) = (sin ?x)\<^sup>2"
    by (simp add: a stability_check_id)
  then have "sqrt (stability_check (haversine_a pos1 pos2)) = sin ?x" using s0 by simp
  moreover have "arcsin (sin ?x) = ?x" using x0 x1 by (intro arcsin_sin) auto
  ultimately show ?thesis by (simp add: distance_and_bearing_eq)
qed

lemma north_distance:
  "calculate_distance_and_bearing \<lparr>latitude = 0, longitude = 0, altitude = h\<rparr>
       \<lparr>latitude = 1 / 1000, longitude = 0, altitude = h'\<rparr> =
     Inr (6371 * pi / 180,
          bearing_of \<lparr>latitude = 0, longitude = 0, altitude = h\<rparr>
            \<lparr>latitude = 1 / 1000, longitude = 0, altitude = h'\<rparr>)"
  by (simp add: distance_same_longitude EARTH_RADIUS_def radians_def)

lemma north_distance_bounds: "106 < 6371 * pi / 180" "6371 * pi / 180 < 142"
  using pi_ge_three pi_less_4 by simp_all

section \<open>Wind effect\<close>

text \<open>Read over the reals, the argument of the discarded square root is a square.\<close>

lemma wind_sqrt_arg_real: "(a::real)\<^sup>2 + g\<^sup>2 - 2 * a * g * cos 0 = (a - g)\<^sup>2"
  by (simp add: power2_diff)

lemma wind_effect_completes:
  "wind_sqrt a g = None \<Longrightarrow>
     calculate_wind_effect wind_sqrt a g bearing = (\<bar>a - g\<bar>, if a > g then pi else 0)"
  by (simp add: calculate_wind_effect_def Let_def)

lemma wind_effect_raises:
  "wind_sqrt a g = Some e \<Longrightarrow> calculate_wind_effect wind_sqrt a g bearing = (0, 0)"
  by (simp add: calculate_wind_effect_def)

text \<open>With equal speeds the estimate and the default coincide.\<close>

lemma wind_effect_equal_speeds: "calculate_wind_effect wind_sqrt a a bearing = (0, 0)"
  by (simp add: calculate_wind_effect_def Let_def split: option.split)

text \<open>
  The numbers \<open>2 ^ 1024\<close> and \<open>10 ^ 400\<close> are compared through powers, not written
  out.
\<close>

lemma square_1e200_beyond_floats: "(2::real) ^ 1024 \<le> (10 ^ 200)\<^sup>2"
proof -
  have "(2::real) ^ 1024 \<le> 2 ^ 1200" by (rule power_increasing) simp_all
  also have "\<dots> = ((2::real) ^ 3) ^ 400" by (simp only: power_mult[symmetric]) simp
  also have "\<dots> \<le> (10::real) ^ 400" by (rule power_mono) simp_all
  also have "\<dots> = ((10::real) ^ 200)\<^sup>2" by (simp only: power_mult[symmetric]) simp
  finally show ?thesis .
qed

lemma small_squares_within_floats:
  "\<not> (2::real) ^ 1024 \<le> 50\<^sup>2" "\<not> (2::real) ^ 1024 \<le> 45\<^sup>2"
proof -
  have "(2::real) ^ 12 \<le> 2 ^ 1024" by (rule power_increasing) simp_all
  moreover have "(50::real)\<^sup>2 < 2 ^ 12" "(45::real)\<^sup>2 < 2 ^ 12" by simp_all
  ultimately show "\<not> (2::real) ^ 1024 \<le> 50\<^sup>2" "\<not> (2::real) ^ 1024 \<le> 45\<^sup>2"
    by linarith+
qed

lemma overflow_only_1e200: "overflow_only (10 ^ 200) 45 = Some OverflowError"
  unfolding overflow_only_def
  by (simp only: square_1e200_beyond_floats simp_thms if_True)

lemma overflow_only_50_45: "overflow_only 50 45 = None" "overflow_only 45 50 = None"
  unfolding overflow_only_def
  by (simp_all only: small_squares_within_floats simp_thms if_False)

section \<open>Ballistic trajectory\<close>

lemma ballistic_eq:
  assumes "0 < height" "0 < distance" "1 / 10 ^ 10 \<le> \<bar>effective_horizontal_velocity iv ws\<bar>"
  shows "calculate_ballistic_trajectory iv height distance ws =
     (let fall_time = sqrt (2 * height / (981 / 100));
          cruise_time = distance / \<bar>effective_horizontal_velocity iv ws\<bar>;
          t = (if cruise_time > (12 / 10) * fall_time then fall_time
               else max cruise_time ((8 / 10) * fall_time))
      in if t \<le> 60 then Some (t * (11 / 10)) else None)"
proof -
  have ft: "0 < sqrt (2 * height / (981 / 100))" using assms by simp
  have v: "\<bar>effective_horizontal_velocity iv ws\<bar> \<noteq> 0" using assms(3)
    by (smt (verit) zero_less_divide_1_iff zero_less_power)
  have ct: "0 < distance / \<bar>effective_horizontal_velocity iv ws\<bar>" using assms v by simp
  show ?thesis using assms ft v ct
    by (auto simp: calculate_ballistic_trajectory_def py_sqrt_def py_div_def GRAVITY_def
        Let_def max_def mult.commute not_less)
qed

lemma ballistic_slow:
  "calculate_ballistic_trajectory 5 (981 / 2) (6371 * pi / 180) 0 = Some 11"
proof -
  have "calculate_ballistic_trajectory 5 (981 / 2) (6371 * pi / 180) 0 =
     (let fall_time = sqrt (2 * (981 / 2) / (981 / 100));
          cruise_time = (6371 * pi / 180) / \<bar>effective_horizontal_velocity 5 0\<bar>;
          t = (if cruise_time > (12 / 10) * fall_time then fall_time
               else max cruise_time ((8 / 10) * fall_time))
      in if t \<le> 60 then Some (t * (11 / 10)) else None)"
    by (rule ballistic_eq) (simp_all add: effective_horizontal_velocity_def)
  then show ?thesis using north_distance_bounds
    by (simp add: effective_horizontal_velocity_def sqrt_100 Let_def)
qed

lemma ballistic_fast:
  "calculate_ballistic_trajectory 12 (981 / 2) (6371 * pi / 180) 0 =
     Some (6371 * pi / 180 / 12 * (11 / 10))"
proof -
  have "calculate_ballistic_trajectory 12 (981 / 2) (6371 * pi / 180) 0 =
     (let fall_time = sqrt (2 * (981 / 2) / (981 / 100));
          cruise_time = (6371 * pi / 180) / \<bar>effective_horizontal_velocity 12 0\<bar>;
          t = (if cruise_time > (12 / 10) * fall_time then fall_time
               else max cruise_time ((8 / 10) * fall_time))
      in if t \<le> 60 then Some (t * (11 / 10)) else None)"
    by (rule ballistic_eq) (simp_all add: effective_horizontal_velocity_def)
  then show ?thesis using north_distance_bounds
    by (simp add: effective_horizontal_velocity_def sqrt_100 Let_def max_def)
qed

lemma ballistic_long_fall:
  "calculate_ballistic_trajectory 1 (24525 / 2) 58 0 = Some (319 / 5)"
proof -
  have "calculate_ballistic_trajectory 1 (24525 / 2) 58 0 =
     (let fall_time = sqrt (2 * (24525 / 2) / (981 / 100));
          cruise_time = 58 / \<bar>effective_horizontal_velocity 1 0\<bar>;
          t = (if cruise_time > (12 / 10) * fall_time then fall_time
               else max cruise_time ((8 / 10) * fall_time))
      in if t \<le> 60 then Some (t * (11 / 10)) else None)"
    by (rule ballistic_eq) (simp_all add: effective_horizontal_velocity_def)
  then show ?thesis
    by (simp add: effective_horizontal_velocity_def sqrt_2500 Let_def)
qed

section \<open>Claims about the wind estimate and the ballistic model\<close>

text \<open>
  C8. For positive airspeed and groundspeed and any bearing, \<open>calculate_wind_effect\<close> is
  to return the wind speed \<open>|airspeed - groundspeed|\<close> with the relative angle \<open>pi\<close>
  when the airspeed exceeds the groundspeed and \<open>0\<close> otherwise, and never to fail. The
  function never raises, and it returns that estimate on all speeds on which its
  discarded square-root line completes (\<open>wind_effect_completes\<close>). Where that line
  raises, the handler answers with the default instead: at airspeed \<open>1e200\<close> and
  groundspeed 45 the square of the airspeed overflows, and the result is \<open>(0, 0)\<close> and
  not \<open>(1e200 - 45, pi)\<close>.
\<close>

theorem wind_effect_default_on_overflow:
  "0 < (10 ^ 200 :: real) \<and> 0 < (45 :: real)
   \<and> overflow_only (10 ^ 200) 45 = Some OverflowError
   \<and> calculate_wind_effect overflow_only (10 ^ 200) 45 0 = (0, 0)
   \<and> calculate_wind_effect overflow_only (10 ^ 200) 45 0 \<noteq> (\<bar>10 ^ 200 - 45\<bar>, pi)"
proof -
  have "calculate_wind_effect overflow_only (10 ^ 200) 45 0 = (0, 0)"
    using overflow_only_1e200 by (rule wind_effect_raises)
  moreover have "(0::real) < 10 ^ 200" by (rule zero_less_power) simp
  moreover have "snd (0::real, 0::real) \<noteq> pi" by simp
  ultimately show ?thesis using overflow_only_1e200
    by (metis snd_conv zero_less_numeral)
qed

text \<open>
  C4. For a positive height, a positive distance and an effective horizontal velocity of
  magnitude at least \<open>1e-10\<close>, the time before the drag correction is the fall time
  \<open>sqrt (2 * height / 9.81)\<close> when the cruise time \<open>distance / |velocity|\<close> exceeds 1.2
  times the fall time, and the larger of the cruise time and 0.8 times the fall time
  otherwise. That time is positive; the function returns it times 1.1 when it is at most
  60, and no solution otherwise.
\<close>

theorem ballistic_reconciliation:
  assumes "0 < height" and "0 < distance"
    and "1 / 10 ^ 10 \<le> \<bar>effective_horizontal_velocity iv ws\<bar>"
    and "fall_time = sqrt (2 * height / (981 / 100))"
    and "cruise_time = distance / \<bar>effective_horizontal_velocity iv ws\<bar>"
    and "t = (if cruise_time > (12 / 10) * fall_time then fall_time
              else max cruise_time ((8 / 10) * fall_time))"
  shows "0 < t \<and>
     calculate_ballistic_trajectory iv height distance ws =
       (if t \<le> 60 then Some (t * (11 / 10)) else None)"
proof -
  have ft: "0 < fall_time" using assms(1,4) by simp
  then have "0 < t" using assms(6) by (simp add: max_def)
  moreover have "calculate_ballistic_trajectory iv height distance ws =
       (if t \<le> 60 then Some (t * (11 / 10)) else None)"
    using ballistic_eq[OF assms(1-3)] assms(4-6) by (simp add: Let_def)
  ultimately show ?thesis by simp
qed

theorem ballistic_reconciliation_witness:
  "calculate_ballistic_trajectory 5 (981 / 2) 100 0 = Some 11
   \<and> calculate_ballistic_trajectory 5 (981 / 2) 55 0 = Some (121 / 10)"
proof -
  have v: "1 / 10 ^ 10 \<le> \<bar>effective_horizontal_velocity 5 0\<bar>"
    by (simp add: effective_horizontal_velocity_def)
  have f: "(10::real) = sqrt (2 * (981 / 2) / (981 / 100))"
    by (simp add: sqrt_100)
  have c1: "(20::real) = 100 / \<bar>effective_horizontal_velocity 5 0\<bar>"
    by (simp add: effective_horizontal_velocity_def)
  have c2: "(11::real) = 55 / \<bar>effective_horizontal_velocity 5 0\<bar>"
    by (simp add: effective_horizontal_velocity_def)
  have t1: "(10::real) = (if (20::real) > (12 / 10) * 10 then 10 else max 20 ((8 / 10) * 10))"
    by simp
  have t2: "(11::real) = (if (11::real) > (12 / 10) * 10 then 10 else max 11 ((8 / 10) * 10))"
    by simp
  have "calculate_ballistic_trajectory 5 (981 / 2) 100 0 = Some 11"
    using ballistic_reconciliation[OF _ _ v f c1 t1] by simp
  moreover have "calculate_ballistic_trajectory 5 (981 / 2) 55 0 = Some (121 / 10)"
    using ballistic_reconciliation[OF _ _ v f c2 t2] by simp
  ultimately show ?thesis by simp
qed

text \<open>
  C1, as stated: whenever the ballistic model returns a time, the returned time, with the
  drag multiplier applied, is at most 60. The sanity gate is applied to the time before
  the multiplier, so a time between 60/1.1 and 60 passes it and comes back above 60:
  a fall of 12262.5 m at 1 m/s toward a target 58 m away returns 63.8 s.
\<close>

theorem ballistic_time_above_60:
  "0 < (24525 / 2 :: real) \<and> 0 < (58 :: real)
   \<and> 1 / 10 ^ 10 \<le> \<bar>effective_horizontal_velocity 1 0\<bar>
   \<and> calculate_ballistic_trajectory 1 (24525 / 2) 58 0 = Some (319 / 5)
   \<and> \<not> (319 / 5 :: real) \<le> 60"
  by (simp add: ballistic_long_fall effective_horizontal_velocity_def)

text \<open>
  C1, amended: under the same conditions a returned time lies in \<open>(0, 66]\<close>; it is 1.1
  times a time that lies in \<open>(0, 60]\<close>.
\<close>

theorem ballistic_time_bound:
  assumes "0 < height" and "0 < distance"
    and "1 / 10 ^ 10 \<le> \<bar>effective_horizontal_velocity iv ws\<bar>"
    and "calculate_ballistic_trajectory iv height distance ws = Some t"
  shows "0 < t \<and> t \<le> 66 \<and> 0 < t / (11 / 10) \<and> t / (11 / 10) \<le> 60"
proof -
  define ft where "ft = sqrt (2 * height / (981 / 100))"
  define ct where "ct = distance / \<bar>effective_horizontal_velocity iv ws\<bar>"
  define u where "u = (if ct > (12 / 10) * ft then ft else max ct ((8 / 10) * ft))"
  have "0 < ft" using assms(1) by (simp add: ft_def)
  then have u: "0 < u" by (simp add: u_def max_def)
  have "calculate_ballistic_trajectory iv height distance ws =
       (if u \<le> 60 then Some (u * (11 / 10)) else None)"
    using ballistic_eq[OF assms(1-3)] by (simp add: Let_def ft_def ct_def u_def)
  then have "u \<le> 60" "t = u * (11 / 10)" using assms(4) by (auto split: if_splits)
  then show ?thesis using u by simp
qed

theorem ballistic_time_bound_witness:
  "calculate_ballistic_trajectory 1 (24525 / 2) 58 0 = Some (319 / 5)
   \<and> 0 < (319 / 5 :: real) \<and> (319 / 5 :: real) \<le> 66"
proof -
  have v: "1 / 10 ^ 10 \<le> \<bar>effective_horizontal_velocity 1 0\<bar>"
    by (simp add: effective_horizontal_velocity_def)
  have "0 < (319 / 5 :: real) \<and> (319 / 5 :: real) \<le> 66
        \<and> 0 < (319 / 5 :: real) / (11 / 10) \<and> (319 / 5 :: real) / (11 / 10) \<le> 60"
    by (rule ballistic_time_bound[OF _ _ v ballistic_long_fall]) simp_all
  then show ?thesis using ballistic_long_fall by simp
qed

text \<open>
  C3, as stated: a headwind (airspeed above groundspeed, relative angle \<open>pi\<close>) reduces the
  effective horizontal velocity below the groundspeed. At airspeed 50 and groundspeed 45,
  where every operation of the wind estimate is exact, the estimate is a headwind of
  5 m/s, and the effective velocity is 50, not 40.
\<close>

theorem headwind_not_subtracted:
  "overflow_only 50 45 = None
   \<and> calculate_wind_effect overflow_only 50 45 0 = (5, pi)
   \<and> effective_horizontal_velocity 45 (fst (calculate_wind_effect overflow_only 50 45 0)) = 50
   \<and> effective_horizontal_velocity 45 (fst (calculate_wind_effect overflow_only 50 45 0))
        \<noteq> 45 - 5
   \<and> \<not> effective_horizontal_velocity 45 (fst (calculate_wind_effect overflow_only 50 45 0)) < 45"
  by (simp add: overflow_only_50_45 wind_effect_completes effective_horizontal_velocity_def)

text \<open>
  C3, amended: whenever \<open>calculate_wind_effect\<close> computes its estimate, that is on all
  speeds on which its discarded square-root line completes, the effective horizontal
  velocity is the groundspeed plus the wind speed \<open>|airspeed - groundspeed|\<close>, whatever
  the relative angle: it is the airspeed under a headwind and
  \<open>2 * groundspeed - airspeed\<close> under a tailwind, and not below the groundspeed. The
  ballistic model sees the two speeds only through this sum.
\<close>

theorem effective_velocity_adds_wind:
  assumes "0 < a" and "0 < g" and "wind_sqrt a g = None"
  shows "effective_horizontal_velocity g (fst (calculate_wind_effect wind_sqrt a g bearing))
           = g + \<bar>a - g\<bar>
     \<and> effective_horizontal_velocity g (fst (calculate_wind_effect wind_sqrt a g bearing)) =
         (if a > g then a else 2 * g - a)
     \<and> g \<le> effective_horizontal_velocity g (fst (calculate_wind_effect wind_sqrt a g bearing))
     \<and> calculate_ballistic_trajectory g height distance
           (fst (calculate_wind_effect wind_sqrt a g bearing)) =
         calculate_ballistic_trajectory (g + \<bar>a - g\<bar>) height distance 0"
proof -
  have w: "fst (calculate_wind_effect wind_sqrt a g bearing) = \<bar>a - g\<bar>"
    using assms(3) by (simp add: wind_effect_completes)
  have e: "effective_horizontal_velocity g \<bar>a - g\<bar> = g + \<bar>a - g\<bar>"
    by (simp add: effective_horizontal_velocity_def)
  have e0: "effective_horizontal_velocity (g + \<bar>a - g\<bar>) 0 = g + \<bar>a - g\<bar>"
    by (simp add: effective_horizontal_velocity_def)
  have "calculate_ballistic_trajectory g height distance \<bar>a - g\<bar> =
        calculate_ballistic_trajectory (g + \<bar>a - g\<bar>) height distance 0"
    unfolding calculate_ballistic_trajectory_def e e0 ..
  then show ?thesis by (simp add: w e)
qed

theorem effective_velocity_adds_wind_witness:
  "overflow_only 50 45 = None \<and> overflow_only 45 50 = None
   \<and> effective_horizontal_velocity 45 (fst (calculate_wind_effect overflow_only 50 45 0)) = 50
   \<and> effective_horizontal_velocity 50 (fst (calculate_wind_effect overflow_only 45 50 0)) = 55"
proof -
  have "effective_horizontal_velocity 45 (fst (calculate_wind_effect overflow_only 50 45 0))
          = 45 + \<bar>50 - 45\<bar>"
    using effective_velocity_adds_wind[of 50 45 overflow_only 0] overflow_only_50_45 by simp
  moreover have "effective_horizontal_velocity 50 (fst (calculate_wind_effect overflow_only 45 50 0))
          = 50 + \<bar>45 - 50\<bar>"
    using effective_velocity_adds_wind[of 45 50 overflow_only 0] overflow_only_50_45 by simp
  ultimately show ?thesis using overflow_only_50_45 by simp
qed

section \<open>Release point\<close>

lemma constructed_SpeedData_pos:
  "constructed_SpeedData s \<Longrightarrow> 0 < airspeed s \<and> 0 < groundspeed s"
  by (simp add: constructed_SpeedData_def new_SpeedData_def split: if_splits)

text \<open>
  The result once the altitude and range checks have passed and the ballistic model has
  answered, for a groundspeed other than zero.
\<close>

lemma release_point_after_trajectory:
  assumes "calculate_distance_and_bearing aircraft_pos target_pos = Inr (d, b)"
    and "\<not> altitude aircraft_pos < 50" and "\<not> d > 50000"
    and "calculate_wind_effect wind_sqrt (airspeed speed_data) (groundspeed speed_data) b
           = (w, wa)"
    and "calculate_ballistic_trajectory (groundspeed speed_data)
           (altitude aircraft_pos - altitude target_pos) d w = Some ft"
    and "groundspeed speed_data \<noteq> 0"
  shows "calculate_release_point wind_sqrt aircraft_pos target_pos speed_data =
     (if groundspeed speed_data * ft > d * 2 then
        initial_result\<lparr>error_code := NUMERICAL_INSTABILITY,
                       message := ResultUnstable (groundspeed speed_data * ft)\<rparr>
      else if (d - groundspeed speed_data * ft) / groundspeed speed_data < 0 then
        initial_result\<lparr>error_code := CALCULATION_ERROR, message := ReleaseMomentMissed\<rparr>
      else
        initial_result\<lparr>success := True,
           release_time := Some ((d - groundspeed speed_data * ft) / groundspeed speed_data),
           release_distance := Some (groundspeed speed_data * ft),
           flight_time := Some ft,
           wind_speed := Some w,
           calculations :=
             [''target_distance'' \<mapsto> d,
              ''target_bearing'' \<mapsto> degrees b,
              ''wind_angle'' \<mapsto> degrees wa,
              ''aircraft_altitude'' \<mapsto> altitude aircraft_pos,
              ''target_altitude'' \<mapsto> altitude target_pos,
              ''altitude_difference'' \<mapsto> altitude aircraft_pos - altitude target_pos]\<rparr>)"
  using assms
  by (simp add: calculate_release_point_def py_div_def Let_def
      MIN_RELEASE_HEIGHT_def MAX_REASONABLE_DISTANCE_def)

lemma release_point_slow:
  "calculate_release_point wind_sqrt \<lparr>latitude = 0, longitude = 0, altitude = 981 / 2\<rparr>
     \<lparr>latitude = 1 / 1000, longitude = 0, altitude = 0\<rparr> \<lparr>airspeed = 5, groundspeed = 5\<rparr> =
   initial_result\<lparr>success := True,
     release_time := Some ((6371 * pi / 180 - 55) / 5),
     release_distance := Some 55,
     flight_time := Some 11,
     wind_speed := Some 0,
     calculations :=
       [''target_distance'' \<mapsto> 6371 * pi / 180,
        ''target_bearing'' \<mapsto>
           degrees (bearing_of \<lparr>latitude = 0, longitude = 0, altitude = 981 / 2\<rparr>
                      \<lparr>latitude = 1 / 1000, longitude = 0, altitude = 0\<rparr>),
        ''wind_angle'' \<mapsto> degrees 0,
        ''aircraft_altitude'' \<mapsto> 981 / 2,
        ''target_altitude'' \<mapsto> 0,
        ''altitude_difference'' \<mapsto> 981 / 2]\<rparr>"
proof -
  have w: "calculate_wind_effect wind_sqrt (airspeed \<lparr>airspeed = 5, groundspeed = 5\<rparr>)
          (groundspeed \<lparr>airspeed = 5, groundspeed = 5\<rparr>)
          (bearing_of \<lparr>latitude = 0, longitude = 0, altitude = 981 / 2\<rparr>
             \<lparr>latitude = 1 / 1000, longitude = 0, altitude = 0\<rparr>) = (0, 0)"
    by (simp add: wind_effect_equal_speeds)
  have "calculate_ballistic_trajectory
          (groundspeed \<lparr>airspeed = 5, groundspeed = 5\<rparr>)
          (altitude \<lparr>latitude = 0, longitude = 0, altitude = 981 / 2\<rparr>
             - altitude \<lparr>latitude = 1 / 1000, longitude = 0, altitude = 0\<rparr>)
          (6371 * pi / 180) 0 = Some 11"
    using ballistic_slow by simp
  from release_point_after_trajectory[OF north_distance _ _ w this]
  show ?thesis using north_distance_bounds by simp
qed

lemma release_point_fast:
  "calculate_release_point wind_sqrt \<lparr>latitude = 0, longitude = 0, altitude = 981 / 2\<rparr>
     \<lparr>latitude = 1 / 1000, longitude = 0, altitude = 0\<rparr> \<lparr>airspeed = 12, groundspeed = 12\<rparr> =
   initial_result\<lparr>error_code := CALCULATION_ERROR, message := ReleaseMomentMissed\<rparr>"
proof -
  have w: "calculate_wind_effect wind_sqrt (airspeed \<lparr>airspeed = 12, groundspeed = 12\<rparr>)
          (groundspeed \<lparr>airspeed = 12, groundspeed = 12\<rparr>)
          (bearing_of \<lparr>latitude = 0, longitude = 0, altitude = 981 / 2\<rparr>
             \<lparr>latitude = 1 / 1000, longitude = 0, altitude = 0\<rparr>) = (0, 0)"
    by (simp add: wind_effect_equal_speeds)
  have "calculate_ballistic_trajectory
          (groundspeed \<lparr>airspeed = 12, groundspeed = 12\<rparr>)
          (altitude \<lparr>latitude = 0, longitude = 0, altitude = 981 / 2\<rparr>
             - altitude \<lparr>latitude = 1 / 1000, longitude = 0, altitude = 0\<rparr>)
          (6371 * pi / 180) 0 =
        Some (6371 * pi / 180 / 12 * (11 / 10))"
    using ballistic_fast by simp
  from release_point_after_trajectory[OF north_distance _ _ w this]
  show ?thesis using north_distance_bounds by simp
qed

lemma release_point_overhead:
  "calculate_release_point wind_sqrt \<lparr>latitude = 0, longitude = 0, altitude = 981 / 2\<rparr>
     \<lparr>latitude = 0, longitude = 0, altitude = 0\<rparr> \<lparr>airspeed = 12, groundspeed = 12\<rparr> =
   initial_result\<lparr>error_code := CALCULATION_ERROR, message := NoValidTrajectory\<rparr>"
proof -
  have "calculate_distance_and_bearing \<lparr>latitude = 0, longitude = 0, altitude = 981 / 2\<rparr>
          \<lparr>latitude = 0, longitude = 0, altitude = 0\<rparr> =
        Inr (0, bearing_of \<lparr>latitude = 0, longitude = 0, altitude = 981 / 2\<rparr>
                  \<lparr>latitude = 0, longitude = 0, altitude = 0\<rparr>)"
    by (simp add: distance_same_longitude radians_def)
  then show ?thesis
    by (simp add: calculate_release_point_def wind_effect_equal_speeds Let_def
        calculate_ballistic_trajectory_def MIN_RELEASE_HEIGHT_def MAX_REASONABLE_DISTANCE_def)
qed

section \<open>Claims about the release-point solver\<close>

text \<open>
  C5. \<open>calculate_release_point\<close> reports the altitude failure (error code
  \<open>INVALID_COORDINATES\<close> with the altitude message) exactly when the aircraft altitude is
  strictly below 50 m. An altitude of exactly 50 m passes the check. The check comes
  before the range check: an input that is both too low and too far from the target
  reports the altitude failure and not \<open>TARGET_TOO_FAR\<close>.
\<close>

theorem below_minimum_altitude_first:
  "(error_code (calculate_release_point wind_sqrt aircraft_pos target_pos speed_data) = INVALID_COORDINATES
      \<longleftrightarrow> altitude aircraft_pos < 50)
   \<and> (message (calculate_release_point wind_sqrt aircraft_pos target_pos speed_data) =
        AltitudeTooLow (altitude aircraft_pos) 50
      \<longleftrightarrow> altitude aircraft_pos < 50)
   \<and> (altitude aircraft_pos = 50 \<longrightarrow>
        error_code (calculate_release_point wind_sqrt aircraft_pos target_pos speed_data)
          \<noteq> INVALID_COORDINATES)
   \<and> (altitude aircraft_pos < 50 \<longrightarrow>
        calculate_distance_and_bearing aircraft_pos target_pos = Inr (d, b) \<longrightarrow>
        d > MAX_REASONABLE_DISTANCE \<longrightarrow>
        error_code (calculate_release_point wind_sqrt aircraft_pos target_pos speed_data)
          = INVALID_COORDINATES
        \<and> error_code (calculate_release_point wind_sqrt aircraft_pos target_pos speed_data)
          \<noteq> TARGET_TOO_FAR)"
  by (simp add: calculate_release_point_def initial_result_def MIN_RELEASE_HEIGHT_def Let_def
      split: sum.split option.split prod.split)

theorem below_minimum_altitude_first_witness:
  "calculate_distance_and_bearing \<lparr>latitude = 0, longitude = 0, altitude = 10\<rparr>
       \<lparr>latitude = 1, longitude = 0, altitude = 0\<rparr> =
     Inr (6371000 * pi / 180,
          bearing_of \<lparr>latitude = 0, longitude = 0, altitude = 10\<rparr>
            \<lparr>latitude = 1, longitude = 0, altitude = 0\<rparr>)
   \<and> 6371000 * pi / 180 > MAX_REASONABLE_DISTANCE
   \<and> error_code (calculate_release_point overflow_only \<lparr>latitude = 0, longitude = 0, altitude = 10\<rparr>
         \<lparr>latitude = 1, longitude = 0, altitude = 0\<rparr> \<lparr>airspeed = 50, groundspeed = 45\<rparr>)
       = INVALID_COORDINATES
   \<and> error_code (calculate_release_point overflow_only \<lparr>latitude = 0, longitude = 0, altitude = 50\<rparr>
         \<lparr>latitude = 1, longitude = 0, altitude = 0\<rparr> \<lparr>airspeed = 50, groundspeed = 45\<rparr>)
       \<noteq> INVALID_COORDINATES"
proof -
  have d: "calculate_distance_and_bearing \<lparr>latitude = 0, longitude = 0, altitude = 10\<rparr>
       \<lparr>latitude = 1, longitude = 0, altitude = 0\<rparr> =
     Inr (6371000 * pi / 180,
          bearing_of \<lparr>latitude = 0, longitude = 0, altitude = 10\<rparr>
            \<lparr>latitude = 1, longitude = 0, altitude = 0\<rparr>)"
    by (simp add: distance_same_longitude EARTH_RADIUS_def radians_def)
  have far: "6371000 * pi / 180 > MAX_REASONABLE_DISTANCE"
    using pi_ge_three by (simp add: MAX_REASONABLE_DISTANCE_def)
  have "error_code (calculate_release_point overflow_only \<lparr>latitude = 0, longitude = 0, altitude = 10\<rparr>
         \<lparr>latitude = 1, longitude = 0, altitude = 0\<rparr> \<lparr>airspeed = 50, groundspeed = 45\<rparr>)
       = INVALID_COORDINATES"
    using below_minimum_altitude_first[of overflow_only "\<lparr>latitude = 0, longitude = 0, altitude = 10\<rparr>"
        "\<lparr>latitude = 1, longitude = 0, altitude = 0\<rparr>" "\<lparr>airspeed = 50, groundspeed = 45\<rparr>"
        "6371000 * pi / 180"
        "bearing_of \<lparr>latitude = 0, longitude = 0, altitude = 10\<rparr>
            \<lparr>latitude = 1, longitude = 0, altitude = 0\<rparr>"] d far
    by simp
  moreover have "error_code (calculate_release_point overflow_only \<lparr>latitude = 0, longitude = 0, altitude = 50\<rparr>
         \<lparr>latitude = 1, longitude = 0, altitude = 0\<rparr> \<lparr>airspeed = 50, groundspeed = 45\<rparr>)
       \<noteq> INVALID_COORDINATES"
    using below_minimum_altitude_first[of overflow_only "\<lparr>latitude = 0, longitude = 0, altitude = 50\<rparr>"
        "\<lparr>latitude = 1, longitude = 0, altitude = 0\<rparr>" "\<lparr>airspeed = 50, groundspeed = 45\<rparr>"]
    by simp
  ultimately show ?thesis using d far by simp
qed

text \<open>
  C10. For constructed positions and speed data \<open>calculate_release_point\<close> returns a
  result and the catch-all handler is never entered. Whenever the result is a failure,
  the fields \<open>release_time\<close>, \<open>release_distance\<close>, \<open>flight_time\<close> and \<open>wind_speed\<close> are
  still \<open>None\<close> and \<open>calculations\<close> is still empty.
\<close>

theorem failure_leaves_solution_empty:
  assumes "constructed_Position aircraft_pos" and "constructed_Position target_pos"
    and "constructed_SpeedData speed_data"
    and "r = calculate_release_point wind_sqrt aircraft_pos target_pos speed_data"
  shows "(\<forall>e. message r \<noteq> ExceptionText e)
   \<and> (\<not> success r \<longrightarrow>
        release_time r = None \<and> release_distance r = None \<and> flight_time r = None
        \<and> wind_speed r = None \<and> calculations r = Map.empty)"
proof -
  have g: "groundspeed speed_data \<noteq> 0"
    using constructed_SpeedData_pos[OF assms(3)] by simp
  have "\<forall>e. message r \<noteq> ExceptionText e"
    using g unfolding assms(4)
    by (simp add: calculate_release_point_def distance_and_bearing_eq py_div_def
        initial_result_def Let_def split: option.split prod.split)
  moreover have "\<not> success r \<longrightarrow>
        release_time r = None \<and> release_distance r = None \<and> flight_time r = None
        \<and> wind_speed r = None \<and> calculations r = Map.empty"
    unfolding assms(4)
    by (simp add: calculate_release_point_def initial_result_def Let_def
        split: sum.split option.split prod.split)
  ultimately show ?thesis by simp
qed

theorem failure_leaves_solution_empty_witness:
  "constructed_Position \<lparr>latitude = 0, longitude = 0, altitude = 981 / 2\<rparr>
   \<and> constructed_Position \<lparr>latitude = 1 / 1000, longitude = 0, altitude = 0\<rparr>
   \<and> constructed_SpeedData \<lparr>airspeed = 12, groundspeed = 12\<rparr>
   \<and> \<not> success (calculate_release_point overflow_only \<lparr>latitude = 0, longitude = 0, altitude = 981 / 2\<rparr>
         \<lparr>latitude = 1 / 1000, longitude = 0, altitude = 0\<rparr>
         \<lparr>airspeed = 12, groundspeed = 12\<rparr>)
   \<and> release_time (calculate_release_point overflow_only \<lparr>latitude = 0, longitude = 0, altitude = 981 / 2\<rparr>
         \<lparr>latitude = 1 / 1000, longitude = 0, altitude = 0\<rparr>
         \<lparr>airspeed = 12, groundspeed = 12\<rparr>) = None
   \<and> calculations (calculate_release_point overflow_only \<lparr>latitude = 0, longitude = 0, altitude = 981 / 2\<rparr>
         \<lparr>latitude = 1 / 1000, longitude = 0, altitude = 0\<rparr>
         \<lparr>airspeed = 12, groundspeed = 12\<rparr>) = Map.empty"
proof -
  have a: "constructed_Position \<lparr>latitude = 0, longitude = 0, altitude = 981 / 2\<rparr>"
    by (simp add: constructed_Position_def new_Position_def)
  have t: "constructed_Position \<lparr>latitude = 1 / 1000, longitude = 0, altitude = 0\<rparr>"
    by (simp add: constructed_Position_def new_Position_def)
  have s: "constructed_SpeedData \<lparr>airspeed = 12, groundspeed = 12\<rparr>"
    by (simp add: constructed_SpeedData_def new_SpeedData_def)
  have f: "\<not> success (calculate_release_point overflow_only \<lparr>latitude = 0, longitude = 0, altitude = 981 / 2\<rparr>
         \<lparr>latitude = 1 / 1000, longitude = 0, altitude = 0\<rparr>
         \<lparr>airspeed = 12, groundspeed = 12\<rparr>)"
    by (simp add: release_point_fast initial_result_def)
  show ?thesis
    using failure_leaves_solution_empty[where wind_sqrt = overflow_only, OF a t s refl] a t s f by simp
qed

text \<open>
  C2. For constructed positions and speed data, a result marked successful has a release
  time of at least 0 and a release distance of at most twice the target distance that
  \<open>calculate_distance_and_bearing\<close> computed and the result records. An input whose flight
  time gives a release distance above twice the target distance, or a negative release
  time, yields a failure.
\<close>

theorem success_satisfies_bounds:
  assumes "constructed_Position aircraft_pos" and "constructed_Position target_pos"
    and "constructed_SpeedData speed_data"
    and "r = calculate_release_point wind_sqrt aircraft_pos target_pos speed_data"
  shows "(success r \<longrightarrow>
        (\<exists>rt rd d b.
           calculate_distance_and_bearing aircraft_pos target_pos = Inr (d, b)
           \<and> calculations r ''target_distance'' = Some d
           \<and> release_time r = Some rt \<and> release_distance r = Some rd
           \<and> 0 \<le> rt \<and> rd \<le> 2 * d))
   \<and> (\<forall>d b ft.
        calculate_distance_and_bearing aircraft_pos target_pos = Inr (d, b) \<longrightarrow>
        calculate_ballistic_trajectory (groundspeed speed_data)
          (altitude aircraft_pos - altitude target_pos) d
          (fst (calculate_wind_effect wind_sqrt (airspeed speed_data) (groundspeed speed_data) b)) = Some ft \<longrightarrow>
        (groundspeed speed_data * ft > 2 * d
         \<or> (d - groundspeed speed_data * ft) / groundspeed speed_data < 0) \<longrightarrow>
        \<not> success r)"
proof -
  have g: "groundspeed speed_data \<noteq> 0"
    using constructed_SpeedData_pos[OF assms(3)] by simp
  have "success r \<longrightarrow>
        (\<exists>rt rd d b.
           calculate_distance_and_bearing aircraft_pos target_pos = Inr (d, b)
           \<and> calculations r ''target_distance'' = Some d
           \<and> release_time r = Some rt \<and> release_distance r = Some rd
           \<and> 0 \<le> rt \<and> rd \<le> 2 * d)"
    unfolding assms(4)
    by (simp add: calculate_release_point_def initial_result_def Let_def not_less mult.commute
        split: sum.split option.split prod.split)
  moreover have "\<forall>d b ft.
        calculate_distance_and_bearing aircraft_pos target_pos = Inr (d, b) \<longrightarrow>
        calculate_ballistic_trajectory (groundspeed speed_data)
          (altitude aircraft_pos - altitude target_pos) d
          (fst (calculate_wind_effect wind_sqrt (airspeed speed_data) (groundspeed speed_data) b)) = Some ft \<longrightarrow>
        (groundspeed speed_data * ft > 2 * d
         \<or> (d - groundspeed speed_data * ft) / groundspeed speed_data < 0) \<longrightarrow>
        \<not> success r"
    using g unfolding assms(4)
    by (auto simp add: calculate_release_point_def initial_result_def Let_def py_div_def
        mult.commute split: prod.split)
  ultimately show ?thesis by simp
qed

theorem success_satisfies_bounds_witness:
  "constructed_Position \<lparr>latitude = 0, longitude = 0, altitude = 981 / 2\<rparr>
   \<and> constructed_Position \<lparr>latitude = 1 / 1000, longitude = 0, altitude = 0\<rparr>
   \<and> constructed_SpeedData \<lparr>airspeed = 5, groundspeed = 5\<rparr>
   \<and> success (calculate_release_point overflow_only \<lparr>latitude = 0, longitude = 0, altitude = 981 / 2\<rparr>
         \<lparr>latitude = 1 / 1000, longitude = 0, altitude = 0\<rparr> \<lparr>airspeed = 5, groundspeed = 5\<rparr>)
   \<and> (\<exists>rt rd d b.
         calculate_distance_and_bearing \<lparr>latitude = 0, longitude = 0, altitude = 981 / 2\<rparr>
           \<lparr>latitude = 1 / 1000, longitude = 0, altitude = 0\<rparr> = Inr (d, b)
         \<and> calculations (calculate_release_point overflow_only \<lparr>latitude = 0, longitude = 0, altitude = 981 / 2\<rparr>
              \<lparr>latitude = 1 / 1000, longitude = 0, altitude = 0\<rparr> \<lparr>airspeed = 5, groundspeed = 5\<rparr>)
              ''target_distance'' = Some d
         \<and> release_time (calculate_release_point overflow_only \<lparr>latitude = 0, longitude = 0, altitude = 981 / 2\<rparr>
              \<lparr>latitude = 1 / 1000, longitude = 0, altitude = 0\<rparr> \<lparr>airspeed = 5, groundspeed = 5\<rparr>)
              = Some rt
         \<and> release_distance (calculate_release_point overflow_only \<lparr>latitude = 0, longitude = 0, altitude = 981 / 2\<rparr>
              \<lparr>latitude = 1 / 1000, longitude = 0, altitude = 0\<rparr> \<lparr>airspeed = 5, groundspeed = 5\<rparr>)
              = Some rd
         \<and> 0 \<le> rt \<and> rd \<le> 2 * d)"
proof -
  have a: "constructed_Position \<lparr>latitude = 0, longitude = 0, altitude = 981 / 2\<rparr>"
    by (simp add: constructed_Position_def new_Position_def)
  have t: "constructed_Position \<lparr>latitude = 1 / 1000, longitude = 0, altitude = 0\<rparr>"
    by (simp add: constructed_Position_def new_Position_def)
  have s: "constructed_SpeedData \<lparr>airspeed = 5, groundspeed = 5\<rparr>"
    by (simp add: constructed_SpeedData_def new_SpeedData_def)
  have ok: "success (calculate_release_point overflow_only \<lparr>latitude = 0, longitude = 0, altitude = 981 / 2\<rparr>
         \<lparr>latitude = 1 / 1000, longitude = 0, altitude = 0\<rparr> \<lparr>airspeed = 5, groundspeed = 5\<rparr>)"
    by (simp add: release_point_slow initial_result_def)
  show ?thesis
    using success_satisfies_bounds[where wind_sqrt = overflow_only, OF a t s refl] a t s ok by blast
qed

text \<open>
  C6, as stated: the five failure outcomes of the solver are reported as five mutually
  distinct error kinds. The enumeration has no member for a missed release moment: an
  unresolvable trajectory and a missed release moment both carry \<open>CALCULATION_ERROR\<close>.
  Over the same aircraft position, a target straight below gives the first and a
  groundspeed of 12 m/s toward a target 111 m ahead gives the second.
\<close>

theorem two_failures_share_error_code:
  "message (calculate_release_point overflow_only \<lparr>latitude = 0, longitude = 0, altitude = 981 / 2\<rparr>
      \<lparr>latitude = 0, longitude = 0, altitude = 0\<rparr> \<lparr>airspeed = 12, groundspeed = 12\<rparr>)
     = NoValidTrajectory
   \<and> message (calculate_release_point overflow_only \<lparr>latitude = 0, longitude = 0, altitude = 981 / 2\<rparr>
      \<lparr>latitude = 1 / 1000, longitude = 0, altitude = 0\<rparr> \<lparr>airspeed = 12, groundspeed = 12\<rparr>)
     = ReleaseMomentMissed
   \<and> error_code (calculate_release_point overflow_only \<lparr>latitude = 0, longitude = 0, altitude = 981 / 2\<rparr>
      \<lparr>latitude = 0, longitude = 0, altitude = 0\<rparr> \<lparr>airspeed = 12, groundspeed = 12\<rparr>)
     = error_code (calculate_release_point overflow_only \<lparr>latitude = 0, longitude = 0, altitude = 981 / 2\<rparr>
      \<lparr>latitude = 1 / 1000, longitude = 0, altitude = 0\<rparr> \<lparr>airspeed = 12, groundspeed = 12\<rparr>)"
  by (simp add: release_point_overhead release_point_fast initial_result_def)

text \<open>
  C6, amended: the error code of a result is determined by its outcome as follows. Too low
  an altitude is \<open>INVALID_COORDINATES\<close>, too far a target is \<open>TARGET_TOO_FAR\<close>, an unstable
  result is \<open>NUMERICAL_INSTABILITY\<close>, and an unresolvable trajectory, a missed release
  moment and a caught exception are all \<open>CALCULATION_ERROR\<close>, told apart by the message
  only. These four codes have four different values, \<open>INVALID_SPEED\<close> is never reported,
  and a result is successful exactly when it carries no message.
\<close>

theorem error_code_of_outcome:
  "error_code (calculate_release_point wind_sqrt aircraft_pos target_pos speed_data) =
     (case message (calculate_release_point wind_sqrt aircraft_pos target_pos speed_data) of
        NoMessage \<Rightarrow> SUCCESS
      | AltitudeTooLow x y \<Rightarrow> INVALID_COORDINATES
      | TargetTooFar x y \<Rightarrow> TARGET_TOO_FAR
      | NoValidTrajectory \<Rightarrow> CALCULATION_ERROR
      | ResultUnstable x \<Rightarrow> NUMERICAL_INSTABILITY
      | ReleaseMomentMissed \<Rightarrow> CALCULATION_ERROR
      | ExceptionText e \<Rightarrow> CALCULATION_ERROR)
   \<and> (success (calculate_release_point wind_sqrt aircraft_pos target_pos speed_data)
        \<longleftrightarrow> message (calculate_release_point wind_sqrt aircraft_pos target_pos speed_data) = NoMessage)
   \<and> error_code (calculate_release_point wind_sqrt aircraft_pos target_pos speed_data) \<noteq> INVALID_SPEED
   \<and> map ErrorCode_value
         [INVALID_COORDINATES, TARGET_TOO_FAR, CALCULATION_ERROR, NUMERICAL_INSTABILITY]
       = [1, 3, 4, 5]"
  by (simp add: calculate_release_point_def initial_result_def Let_def
      split: sum.split option.split prod.split)

theorem error_code_of_outcome_witness:
  "error_code (calculate_release_point overflow_only \<lparr>latitude = 0, longitude = 0, altitude = 981 / 2\<rparr>
      \<lparr>latitude = 1 / 1000, longitude = 0, altitude = 0\<rparr> \<lparr>airspeed = 12, groundspeed = 12\<rparr>)
     = CALCULATION_ERROR
   \<and> \<not> success (calculate_release_point overflow_only \<lparr>latitude = 0, longitude = 0, altitude = 981 / 2\<rparr>
      \<lparr>latitude = 1 / 1000, longitude = 0, altitude = 0\<rparr> \<lparr>airspeed = 12, groundspeed = 12\<rparr>)"
proof -
  have "message (calculate_release_point overflow_only \<lparr>latitude = 0, longitude = 0, altitude = 981 / 2\<rparr>
      \<lparr>latitude = 1 / 1000, longitude = 0, altitude = 0\<rparr> \<lparr>airspeed = 12, groundspeed = 12\<rparr>)
     = ReleaseMomentMissed"
    by (simp add: release_point_fast initial_result_def)
  then show ?thesis
    using error_code_of_outcome[of overflow_only "\<lparr>latitude = 0, longitude = 0, altitude = 981 / 2\<rparr>"
        "\<lparr>latitude = 1 / 1000, longitude = 0, altitude = 0\<rparr>"
        "\<lparr>airspeed = 12, groundspeed = 12\<rparr>"]
    by simp
qed

section \<open>Claim about the distance\<close>



section \<open>Claim about the flight-data collector\<close>

text \<open>
  C7. With a total timeout \<open>T\<close>, \<open>get_complete_flight_data\<close> first calls the position
  pull with the timeout \<open>T / 2\<close>. When the position arrived it reads the clock and
  computes the remaining timeout as \<open>T\<close> minus the time elapsed since the start. If the
  remainder is not positive it returns \<open>None\<close> and leaves the world as that clock
  reading left it: the speed pull is not called, and putting any other speed pull in its
  place changes nothing. Otherwise it calls the speed pull with exactly the remainder as
  its timeout, and the answer and the world the speed pull gives are what it returns.
\<close>

theorem flight_data_budget:
  assumes "time c w0 = (start_time, w1)"
    and "get_position_data c (T / 2) w1 = (p, w2)"
    and "time c w2 = (now, w3)"
    and "remaining = T - (now - start_time)"
    and "get_speed_data c remaining w3 = (s, w4)"
    and "time c w4 = (stamp, w5)"
  shows "get_complete_flight_data c T w0 =
     (case p of
        None \<Rightarrow> (None, [PositionPull (T / 2)], w2)
      | Some pos \<Rightarrow>
          if remaining \<le> 0 then (None, [PositionPull (T / 2)], w3)
          else
            (case s of
               None \<Rightarrow> (None, [PositionPull (T / 2), SpeedPull remaining], w4)
             | Some spd \<Rightarrow>
                 (Some \<lparr>position = pos, speed = spd, timestamp = stamp,
                        altitude_msl = 0, altitude_agl = 0, heading = 0\<rparr>,
                  [PositionPull (T / 2), SpeedPull remaining], w5)))
   \<and> (p \<noteq> None \<longrightarrow> remaining \<le> 0 \<longrightarrow>
        get_complete_flight_data (c\<lparr>get_speed_data := other_pull\<rparr>) T w0 =
          get_complete_flight_data c T w0)"
  using assms
  by (cases p; cases s) (simp_all add: get_complete_flight_data_def Let_def)

theorem flight_data_budget_witness:
  "get_complete_flight_data
       (logging_collector 1 \<lparr>latitude = 0, longitude = 0, altitude = 100\<rparr>
          \<lparr>airspeed = 50, groundspeed = 45\<rparr>) 10 (0, []) =
     (Some \<lparr>position = \<lparr>latitude = 0, longitude = 0, altitude = 100\<rparr>,
            speed = \<lparr>airspeed = 50, groundspeed = 45\<rparr>, timestamp = 10,
            altitude_msl = 0, altitude_agl = 0, heading = 0\<rparr>,
      [PositionPull 5, SpeedPull 5], (10, [PositionPull 5, SpeedPull 5]))
   \<and> get_complete_flight_data
       (logging_collector 3 \<lparr>latitude = 0, longitude = 0, altitude = 100\<rparr>
          \<lparr>airspeed = 50, groundspeed = 45\<rparr>) 10 (0, []) =
     (None, [PositionPull 5], (15, [PositionPull 5]))"
proof -
  let ?pos = "\<lparr>latitude = 0, longitude = 0, altitude = 100\<rparr>"
  let ?spd = "\<lparr>airspeed = 50, groundspeed = 45\<rparr>"
  have "get_complete_flight_data (logging_collector 1 ?pos ?spd) 10 (0, []) =
     (Some \<lparr>position = ?pos, speed = ?spd, timestamp = 10,
            altitude_msl = 0, altitude_agl = 0, heading = 0\<rparr>,
      [PositionPull 5, SpeedPull 5], (10, [PositionPull 5, SpeedPull 5]))"
    using flight_data_budget[where c = "logging_collector 1 ?pos ?spd" and T = 10
        and ?w0.0 = "(0, [])" and start_time = 0 and ?w1.0 = "(0, [])"
        and p = "Some ?pos" and ?w2.0 = "(5, [PositionPull 5])"
        and now = 5 and ?w3.0 = "(5, [PositionPull 5])" and remaining = 5
        and s = "Some ?spd" and ?w4.0 = "(10, [PositionPull 5, SpeedPull 5])"
        and stamp = 10 and ?w5.0 = "(10, [PositionPull 5, SpeedPull 5])"]
    by (simp add: logging_collector_def)
  moreover have "get_complete_flight_data (logging_collector 3 ?pos ?spd) 10 (0, []) =
     (None, [PositionPull 5], (15, [PositionPull 5]))"
    using flight_data_budget[where c = "logging_collector 3 ?pos ?spd" and T = 10
        and ?w0.0 = "(0, [])" and start_time = 0 and ?w1.0 = "(0, [])"
        and p = "Some ?pos" and ?w2.0 = "(15, [PositionPull 5])"
        and now = 15 and ?w3.0 = "(15, [PositionPull 5])" and remaining = "- 5"
        and s = "Some ?spd" and ?w4.0 = "(10, [PositionPull 5, SpeedPull (- 5)])"
        and stamp = 10 and ?w5.0 = "(10, [PositionPull 5, SpeedPull (- 5)])"]
    by (simp add: logging_collector_def)
  ultimately show ?thesis by simp
qed

end
